theory Spec2Isabelle
  imports Complex_Main
begin

section \<open>Data model of the dashboard\<close>

text \<open>
  The development follows \<^verbatim>\<open>src/components/Dashboard.tsx\<close> (the version with the
  interval mode), \<^verbatim>\<open>src/hooks/useGamepad.ts\<close> and the \<^verbatim>\<open>configManager\<close>.

  JavaScript numbers are modelled as reals. Every comparison the code makes on an axis
  value is exact on doubles, and the double nearest to \<open>0.05\<close> lies above \<open>1/20\<close> with no
  double in between, so \<^verbatim>\<open>Math.abs(x) < 0.05\<close> on doubles and \<open>\<bar>x\<bar> < 1/20\<close> on the
  reals they denote agree. \<open>NaN\<close> is kept as a separate value of an axis reading, since
  \<^verbatim>\<open>axes[i] || 0\<close> treats it like a missing entry.
\<close>

datatype channel = button | axis

text \<open>
  The index of a mapping is a number; the page makes mappings for the positions of the
  current snapshot, a loaded configuration can hold any. Integers are modelled.
\<close>

record FieldMapping =
  type :: channel
  index :: int
  fieldName :: string

datatype jsnum = Num real | NaN

record GamepadState =
  buttons :: "bool list"
  axes :: "jsnum list"
  timestamp :: real

text \<open>Reading \<^verbatim>\<open>xs[i]\<close>: \<open>None\<close> is JavaScript's \<^verbatim>\<open>undefined\<close>, never an exception.\<close>

definition elemAt :: "'a list \<Rightarrow> int \<Rightarrow> 'a option" where
  "elemAt xs i = (if 0 \<le> i then (if i < int (length xs) then Some (xs ! nat i) else None) else None)"

type_synonym payload = "string \<rightharpoonup> real"

text \<open>
  \<^verbatim>\<open>payload[name] = v\<close> on the plain object the builder starts from. The payload is the
  object's own properties, which is what \<^verbatim>\<open>JSON.stringify\<close> prints. Every key becomes
  or overwrites an own property, but for \<^verbatim>\<open>__proto__\<close>: that key reaches the accessor of
  \<^verbatim>\<open>Object.prototype\<close>, whose setter ignores a number, so no property is made and
  nothing is raised.
\<close>

definition setField :: "payload \<Rightarrow> string \<Rightarrow> real \<Rightarrow> payload" where
  "setField p name v = (if name = ''__proto__'' then p else p(name \<mapsto> v))"

section \<open>Deadzone filter and rounding\<close>

definition deadZone :: real where
  "deadZone = 5 / 100"

text \<open>\<^verbatim>\<open>Math.abs(rawValue) < deadZone ? 0 : rawValue\<close>\<close>

definition currentValue :: "real \<Rightarrow> real" where
  "currentValue rawValue = (if \<bar>rawValue\<bar> < deadZone then 0 else rawValue)"

text \<open>\<^verbatim>\<open>gamepadState.axes[index] || 0\<close>: a missing entry, \<open>NaN\<close> and zero all give \<open>0\<close>.\<close>

definition rawValue :: "GamepadState \<Rightarrow> int \<Rightarrow> real" where
  "rawValue gs i = (case elemAt (axes gs) i of None \<Rightarrow> 0 | Some NaN \<Rightarrow> 0 | Some (Num r) \<Rightarrow> r)"

text \<open>
  \<^verbatim>\<open>parseFloat(x.toFixed(2))\<close>: \<open>toFixed\<close> takes the integer \<open>n\<close> with \<open>n / 100\<close> nearest
  to the magnitude, the larger one on a tie, and puts the sign back; from \<open>10^21\<close> on it
  prints the number itself.
\<close>

definition toFixed2 :: "real \<Rightarrow> real" where
  "toFixed2 x =
     (if 10 ^ 21 \<le> \<bar>x\<bar> then x
      else if x < 0 then - (of_int \<lfloor>- x * 100 + 1 / 2\<rfloor> / 100)
      else of_int \<lfloor>x * 100 + 1 / 2\<rfloor> / 100)"

section \<open>Payload builder\<close>

text \<open>The value one mapping writes into the payload (the body of the \<open>forEach\<close>).\<close>

definition fieldValue :: "GamepadState \<Rightarrow> FieldMapping \<Rightarrow> real" where
  "fieldValue gs mapping =
     (case type mapping of
        button \<Rightarrow> (if elemAt (buttons gs) (index mapping) = Some True then 1 else 0)
      | axis \<Rightarrow> toFixed2 (currentValue (rawValue gs (index mapping))))"

definition buildPayload :: "GamepadState \<Rightarrow> FieldMapping list \<Rightarrow> payload" where
  "buildPayload gs ms =
     fold (\<lambda>mapping p. setField p (fieldName mapping) (fieldValue gs mapping)) ms Map.empty"

text \<open>A mapping addresses no channel of the snapshot.\<close>

definition outOfRange :: "GamepadState \<Rightarrow> FieldMapping \<Rightarrow> bool" where
  "outOfRange gs mapping =
     (case type mapping of
        button \<Rightarrow> elemAt (buttons gs) (index mapping) = None
      | axis \<Rightarrow> elemAt (axes gs) (index mapping) = None)"

section \<open>Transport and the last-message observable\<close>

datatype outcome = Returned | Threw

text \<open>
  The connection is known by what \<^verbatim>\<open>publish(subject, bytes)\<close> does; the bytes are the
  JSON text of the payload, which the model identifies with the payload.
\<close>

type_synonym NatsConnection = "string \<Rightarrow> payload \<Rightarrow> outcome"

record Interval =
  delay :: real
  dueIn :: real
  ivState :: GamepadState
  ivMappings :: "FieldMapping list"
  ivSubject :: string
  ivConnection :: NatsConnection

record Dashboard =
  natsUrl :: string
  subject :: string
  natsConnection :: "NatsConnection option"
  isConnected :: bool
  isStreaming :: bool
  mappings :: "FieldMapping list"
  lastMessage :: "payload option"
  sendHz :: real
  sendByInterval :: bool
  selectedGamepadIndex :: "nat option"
  gamepadState :: "GamepadState option"
  lastSentState :: "int \<Rightarrow> bool option"
  lastAxisValues :: "int \<Rightarrow> real option"
  intervalId :: "Interval option"
  published :: "payload list"

text \<open>
  \<open>published\<close> is the trace of the calls of \<^verbatim>\<open>natsConnection.publish\<close>, in order, whether
  they returned or threw. \<open>sendPayload\<close> sets the last message only after the call
  returned.
\<close>

definition sendPayload :: "NatsConnection \<Rightarrow> string \<Rightarrow> payload \<Rightarrow> Dashboard \<Rightarrow> Dashboard" where
  "sendPayload nc subj p s =
     (case nc subj p of
        Returned \<Rightarrow> s\<lparr>published := published s @ [p], lastMessage := Some p\<rparr>
      | Threw \<Rightarrow> s\<lparr>published := published s @ [p]\<rparr>)"

section \<open>The streaming effect\<close>

text \<open>
  The change-detection branch walks the mappings once, carrying \<open>hasChange\<close>, the two
  latch objects and the payload under construction. A latch lookup that finds nothing and
  a button read outside the array both give \<^verbatim>\<open>undefined\<close>, here \<open>None\<close>; the button latch
  stores whatever was read, \<^verbatim>\<open>undefined\<close> included.
\<close>

record Detection =
  hasChange :: bool
  sentState :: "int \<Rightarrow> bool option"
  axisValues :: "int \<Rightarrow> real option"
  built :: payload

definition detectMapping :: "GamepadState \<Rightarrow> FieldMapping \<Rightarrow> Detection \<Rightarrow> Detection" where
  "detectMapping gs mapping d =
     (case type mapping of
        button \<Rightarrow>
          (let isPressed = elemAt (buttons gs) (index mapping);
               wasPressed = sentState d (index mapping);
               d' = (if isPressed \<noteq> wasPressed
                     then d\<lparr>hasChange := True,
                            sentState := (sentState d)(index mapping := isPressed)\<rparr>
                     else d)
           in d'\<lparr>built := setField (built d') (fieldName mapping)
                                 (if isPressed = Some True then 1 else 0)\<rparr>)
      | axis \<Rightarrow>
          (let raw = rawValue gs (index mapping);
               lastValue = axisValues d (index mapping);
               cur = currentValue raw;
               d' = (if lastValue = None \<or> Some cur \<noteq> lastValue
                     then d\<lparr>hasChange := True,
                            axisValues := (axisValues d)(index mapping \<mapsto> cur)\<rparr>
                     else d)
           in d'\<lparr>built := setField (built d') (fieldName mapping) (toFixed2 cur)\<rparr>))"

text \<open>
  The host's \<^verbatim>\<open>setInterval\<close> takes the delay as a whole number of milliseconds and does
  not run a repeating timer faster than every 4 ms.
\<close>

definition timerDelay :: "real \<Rightarrow> real" where
  "timerDelay ms = max 4 (of_int \<lfloor>ms\<rfloor>)"

text \<open>
  The body of the effect. The interval branch arms a timer whose callback closes over
  the snapshot, the mappings, the subject and the connection of this render.
\<close>

definition streamingEffect :: "Dashboard \<Rightarrow> Dashboard" where
  "streamingEffect s =
     (if isStreaming s then
        (case natsConnection s of
           None \<Rightarrow> s
         | Some nc \<Rightarrow>
             (case gamepadState s of
                None \<Rightarrow> s
              | Some gs \<Rightarrow>
                  if mappings s = [] then s
                  else if sendByInterval s then
                    s\<lparr>intervalId := Some \<lparr>delay = timerDelay (1000 / sendHz s),
                                          dueIn = timerDelay (1000 / sendHz s),
                                          ivState = gs, ivMappings = mappings s,
                                          ivSubject = subject s, ivConnection = nc\<rparr>\<rparr>
                  else
                    (let d = fold (detectMapping gs) (mappings s)
                               \<lparr>hasChange = False, sentState = lastSentState s,
                                axisValues = lastAxisValues s, built = Map.empty\<rparr>;
                         s' = s\<lparr>lastSentState := sentState d, lastAxisValues := axisValues d\<rparr>
                     in if hasChange d then sendPayload nc (subject s) (built d) s' else s')))
      else s)"

text \<open>The cleanup the interval branch returns: \<^verbatim>\<open>clearInterval(intervalId)\<close>.\<close>

definition cleanup :: "Dashboard \<Rightarrow> Dashboard" where
  "cleanup s = s\<lparr>intervalId := None\<rparr>"

text \<open>
  When a dependency of the effect has changed in a render, React runs the previous
  cleanup and then the effect again.
\<close>

definition rerun :: "Dashboard \<Rightarrow> Dashboard" where
  "rerun s = streamingEffect (cleanup s)"

text \<open>One firing of the timer, and the passing of \<open>d\<close> milliseconds without a render.\<close>

definition fire :: "Interval \<Rightarrow> Dashboard \<Rightarrow> Dashboard" where
  "fire iv s =
     sendPayload (ivConnection iv) (ivSubject iv) (buildPayload (ivState iv) (ivMappings iv)) s"

definition fires :: "real \<Rightarrow> Interval \<Rightarrow> nat" where
  "fires d iv = (if d < dueIn iv then 0 else Suc (nat \<lfloor>(d - dueIn iv) / delay iv\<rfloor>))"

definition elapse :: "real \<Rightarrow> Dashboard \<Rightarrow> Dashboard" where
  "elapse d s =
     (case intervalId s of
        None \<Rightarrow> s
      | Some iv \<Rightarrow>
          ((fire iv ^^ fires d iv) s)
            \<lparr>intervalId := Some (iv\<lparr>dueIn := dueIn iv + real (fires d iv) * delay iv - d\<rparr>)\<rparr>)"

section \<open>Mapping table and configuration\<close>

text \<open>
  \<^verbatim>\<open>String.prototype.trim\<close>. A character of a \<open>string\<close> stands for the code unit of the
  same number, 0 to 255. Of these, \<open>trim\<close> strips the white space characters tab,
  vertical tab, form feed, space and no-break space (\<open>0xA0\<close>) and the line terminators
  line feed and carriage return, and no other.
\<close>

definition isSpace :: "char \<Rightarrow> bool" where
  "isSpace c =
     List.member [CHR 0x09, CHR 0x0A, CHR 0x0B, CHR 0x0C, CHR 0x0D, CHR 0x20, CHR 0xA0] c"

definition trim :: "string \<Rightarrow> string" where
  "trim str = rev (dropWhile isSpace (rev (dropWhile isSpace str)))"

definition samePair :: "channel \<Rightarrow> int \<Rightarrow> FieldMapping \<Rightarrow> bool" where
  "samePair t i m = (type m = t \<and> index m = i)"

definition addMapping :: "channel \<Rightarrow> int \<Rightarrow> string \<Rightarrow> FieldMapping list \<Rightarrow> FieldMapping list" where
  "addMapping t i name ms =
     (if trim name = [] then ms
      else filter (\<lambda>m. \<not> samePair t i m) ms @ [\<lparr>type = t, index = i, fieldName = trim name\<rparr>])"

definition removeMapping :: "channel \<Rightarrow> int \<Rightarrow> FieldMapping list \<Rightarrow> FieldMapping list" where
  "removeMapping t i ms = filter (\<lambda>m. \<not> samePair t i m) ms"

definition getMapping :: "channel \<Rightarrow> int \<Rightarrow> FieldMapping list \<Rightarrow> FieldMapping option" where
  "getMapping t i ms = find (samePair t i) ms"

text \<open>The invariant of the table: at most one mapping for each pair of kind and index.\<close>

definition uniquePairs :: "FieldMapping list \<Rightarrow> bool" where
  "uniquePairs ms = distinct (map (\<lambda>m. (type m, index m)) ms)"

record GamepadConfig =
  cfgName :: string
  cfgNatsUrl :: string
  cfgSubject :: string
  cfgMappings :: "FieldMapping list"
  cfgSendHz :: "real option"
  cfgSendByInterval :: "bool option"
  createdAt :: real

text \<open>
  The state setters of \<open>handleLoadConfig\<close>; the effect that loads a shared configuration
  from the URL on mount makes the same calls.
\<close>

definition handleLoadConfig :: "GamepadConfig \<Rightarrow> Dashboard \<Rightarrow> Dashboard" where
  "handleLoadConfig config s =
     (let s1 = s\<lparr>natsUrl := cfgNatsUrl config, subject := cfgSubject config,
                 mappings := cfgMappings config\<rparr>;
          s2 = (case cfgSendHz config of None \<Rightarrow> s1 | Some hz \<Rightarrow> s1\<lparr>sendHz := hz\<rparr>)
      in (case cfgSendByInterval config of None \<Rightarrow> s2 | Some b \<Rightarrow> s2\<lparr>sendByInterval := b\<rparr>))"

text \<open>The \<^verbatim>\<open>onChange\<close> of the frequency input: \<^verbatim>\<open>Math.max(1, Math.min(100, v))\<close>.\<close>

definition clampHz :: "real \<Rightarrow> real" where
  "clampHz v = max 1 (min 100 v)"

section \<open>The component as a state machine\<close>

definition initial :: Dashboard where
  "initial =
     \<lparr>natsUrl = ''ws://localhost:9222'', subject = ''joystick.data'', natsConnection = None,
      isConnected = False, isStreaming = False, mappings = [], lastMessage = None,
      sendHz = 2, sendByInterval = False, selectedGamepadIndex = None, gamepadState = None,
      lastSentState = (\<lambda>i. None), lastAxisValues = (\<lambda>i. None), intervalId = None,
      published = []\<rparr>"

text \<open>
  The state after mounting: \<open>configManager.loadFromUrl\<close> parses the shared configuration
  without checking it, and the mount effect stores it.
\<close>

definition mount :: "GamepadConfig option \<Rightarrow> Dashboard" where
  "mount urlConfig = (case urlConfig of None \<Rightarrow> initial | Some c \<Rightarrow> handleLoadConfig c initial)"

datatype action =
    Connect NatsConnection
  | Disconnect
  | SelectGamepad nat
  | DeviceLost
  | Poll GamepadState
  | ToggleStreaming
  | AddMapping channel int string
  | RemoveMapping channel int
  | LoadConfig GamepadConfig
  | SetSendHz real
  | SetSendByInterval bool
  | SetSubject string
  | Elapse real

text \<open>
  Which controls the rendered page offers: the \<^verbatim>\<open>disabled\<close> attributes and the
  conditions under which a control is rendered at all. A mapping row exists for each
  button and axis of the current snapshot.
\<close>

definition inRange :: "GamepadState \<Rightarrow> channel \<Rightarrow> int \<Rightarrow> bool" where
  "inRange gs t i =
     (case t of button \<Rightarrow> elemAt (buttons gs) i \<noteq> None | axis \<Rightarrow> elemAt (axes gs) i \<noteq> None)"

definition available :: "action \<Rightarrow> Dashboard \<Rightarrow> bool" where
  "available a s =
     (case a of
        Connect nc \<Rightarrow> \<not> isConnected s
      | Disconnect \<Rightarrow> isConnected s
      | SelectGamepad n \<Rightarrow> True
      | DeviceLost \<Rightarrow> selectedGamepadIndex s \<noteq> None
      | Poll gs \<Rightarrow> selectedGamepadIndex s \<noteq> None
      | ToggleStreaming \<Rightarrow>
          selectedGamepadIndex s \<noteq> None \<and> isConnected s \<and> mappings s \<noteq> []
      | AddMapping t i name \<Rightarrow>
          (case gamepadState s of
             None \<Rightarrow> False
           | Some gs \<Rightarrow> selectedGamepadIndex s \<noteq> None \<and> inRange gs t i \<and> trim name \<noteq> [])
      | RemoveMapping t i \<Rightarrow>
          (case gamepadState s of
             None \<Rightarrow> False
           | Some gs \<Rightarrow> selectedGamepadIndex s \<noteq> None \<and> inRange gs t i \<and>
                         getMapping t i (mappings s) \<noteq> None)
      | LoadConfig c \<Rightarrow> True
      | SetSendHz v \<Rightarrow> sendByInterval s \<and> \<not> isStreaming s
      | SetSendByInterval b \<Rightarrow> \<not> isStreaming s
      | SetSubject subj \<Rightarrow> \<not> isStreaming s
      | Elapse d \<Rightarrow> 0 \<le> d)"

text \<open>
  What a handler does, followed by the render it causes. The dependencies of the
  streaming effect are the snapshot, the connection, the mappings, the subject,
  \<open>isStreaming\<close>, \<open>sendHz\<close> and \<open>sendByInterval\<close>. A handler that stores a fresh array or
  object always changes one of them: \<open>pollGamepad\<close> stores a new snapshot object on
  every animation frame, and the mapping handlers store a new array. One that stores a
  boolean, a number or a string changes a dependency only when the value differs.
\<close>

definition perform :: "action \<Rightarrow> Dashboard \<Rightarrow> Dashboard" where
  "perform a s =
     (case a of
        Connect nc \<Rightarrow> rerun (s\<lparr>natsConnection := Some nc, isConnected := True\<rparr>)
      | Disconnect \<Rightarrow>
          (case natsConnection s of
             None \<Rightarrow> s
           | Some nc \<Rightarrow>
               rerun (s\<lparr>natsConnection := None, isConnected := False, isStreaming := False\<rparr>))
      | SelectGamepad n \<Rightarrow> s\<lparr>selectedGamepadIndex := Some n\<rparr>
      | DeviceLost \<Rightarrow>
          (case gamepadState s of
             None \<Rightarrow> s\<lparr>selectedGamepadIndex := None\<rparr>
           | Some gs \<Rightarrow> rerun (s\<lparr>selectedGamepadIndex := None, gamepadState := None\<rparr>))
      | Poll gs \<Rightarrow> rerun (s\<lparr>gamepadState := Some gs\<rparr>)
      | ToggleStreaming \<Rightarrow> rerun (s\<lparr>isStreaming := \<not> isStreaming s\<rparr>)
      | AddMapping t i name \<Rightarrow>
          (if trim name = [] then s else rerun (s\<lparr>mappings := addMapping t i name (mappings s)\<rparr>))
      | RemoveMapping t i \<Rightarrow> rerun (s\<lparr>mappings := removeMapping t i (mappings s)\<rparr>)
      | LoadConfig c \<Rightarrow> rerun (handleLoadConfig c s)
      | SetSendHz v \<Rightarrow>
          (if clampHz v = sendHz s then s else rerun (s\<lparr>sendHz := clampHz v\<rparr>))
      | SetSendByInterval b \<Rightarrow>
          (if b = sendByInterval s then s else rerun (s\<lparr>sendByInterval := b\<rparr>))
      | SetSubject subj \<Rightarrow> (if subj = subject s then s else rerun (s\<lparr>subject := subj\<rparr>))
      | Elapse d \<Rightarrow> elapse d s)"

definition step :: "action \<Rightarrow> Dashboard \<Rightarrow> Dashboard" where
  "step a s = (if available a s then perform a s else s)"

definition run :: "action list \<Rightarrow> Dashboard \<Rightarrow> Dashboard" where
  "run as s = fold step as s"

section \<open>What counts as a change\<close>

text \<open>The test the code makes on one mapping, against given latches.\<close>

definition channelChanged ::
  "(int \<Rightarrow> bool option) \<Rightarrow> (int \<Rightarrow> real option) \<Rightarrow> GamepadState \<Rightarrow> FieldMapping \<Rightarrow> bool" where
  "channelChanged sent vals gs m =
     (case type m of
        button \<Rightarrow> elemAt (buttons gs) (index m) \<noteq> sent (index m)
      | axis \<Rightarrow> vals (index m) \<noteq> Some (currentValue (rawValue gs (index m))))"

text \<open>
  The test in the words of the specification: the channel's value (not pressed, or zero,
  when the index is missing from the snapshot) differs from its latch, or its latch does
  not yet exist.
\<close>

definition specChanged ::
  "(int \<Rightarrow> bool option) \<Rightarrow> (int \<Rightarrow> real option) \<Rightarrow> GamepadState \<Rightarrow> FieldMapping \<Rightarrow> bool" where
  "specChanged sent vals gs m =
     (case type m of
        button \<Rightarrow>
          sent (index m) = None \<or>
          sent (index m) \<noteq> Some (elemAt (buttons gs) (index m) = Some True)
      | axis \<Rightarrow>
          vals (index m) = None \<or>
          vals (index m) \<noteq> Some (currentValue (rawValue gs (index m))))"

section \<open>Example sessions\<close>

text \<open>Concrete connections, snapshots, configurations and sessions used to run the model.\<close>

definition acceptingConnection :: NatsConnection where
  "acceptingConnection = (\<lambda>subj p. Returned)"

definition failingConnection :: NatsConnection where
  "failingConnection = (\<lambda>subj p. Threw)"

definition restingPad :: GamepadState where
  "restingPad = \<lparr>buttons = [False], axes = [Num 0.123], timestamp = 0\<rparr>"

definition movedPad :: GamepadState where
  "movedPad = \<lparr>buttons = [False], axes = [Num 0.124], timestamp = 16\<rparr>"

definition fourAxisPad :: GamepadState where
  "fourAxisPad = \<lparr>buttons = [False], axes = [Num 0.5, Num 0, Num 1, Num (- 1)], timestamp = 0\<rparr>"

definition wideConfig :: GamepadConfig where
  "wideConfig =
     \<lparr>cfgName = ''wide'', cfgNatsUrl = ''ws://localhost:9222'', cfgSubject = ''joystick.data'',
      cfgMappings = [\<lparr>type = button, index = 5, fieldName = ''fire''\<rparr>],
      cfgSendHz = None, cfgSendByInterval = None, createdAt = 0\<rparr>"

definition wideAxisConfig :: GamepadConfig where
  "wideAxisConfig =
     \<lparr>cfgName = ''wide axis'', cfgNatsUrl = ''ws://localhost:9222'', cfgSubject = ''joystick.data'',
      cfgMappings = [\<lparr>type = axis, index = 5, fieldName = ''turn''\<rparr>],
      cfgSendHz = None, cfgSendByInterval = None, createdAt = 0\<rparr>"

definition fastConfig :: GamepadConfig where
  "fastConfig =
     \<lparr>cfgName = ''fast'', cfgNatsUrl = ''ws://localhost:9222'', cfgSubject = ''joystick.data'',
      cfgMappings = [\<lparr>type = axis, index = 0, fieldName = ''turn''\<rparr>],
      cfgSendHz = Some 500, cfgSendByInterval = Some True, createdAt = 0\<rparr>"

definition savedConfig :: GamepadConfig where
  "savedConfig =
     \<lparr>cfgName = ''patrol'', cfgNatsUrl = ''ws://localhost:9222'', cfgSubject = ''joystick.data'',
      cfgMappings = [\<lparr>type = axis, index = 0, fieldName = ''turn''\<rparr>],
      cfgSendHz = Some 50, cfgSendByInterval = Some True, createdAt = 0\<rparr>"

text \<open>Connect, select a device, map button 0 and axis 0, start streaming on change.\<close>

definition startSession :: "action list" where
  "startSession =
     [Connect acceptingConnection, SelectGamepad 0, Poll restingPad,
      AddMapping button 0 ''fire'', AddMapping axis 0 ''turn'', ToggleStreaming]"

text \<open>The same with a mapping table loaded from a configuration made for a larger device.\<close>

definition startWideSession :: "action list" where
  "startWideSession =
     [Connect acceptingConnection, SelectGamepad 0, Poll restingPad, LoadConfig wideConfig,
      ToggleStreaming]"

text \<open>Connect, select a device, map axis 0, choose the interval mode at 10 Hz, start.\<close>

definition startIntervalSession :: "action list" where
  "startIntervalSession =
     [Connect acceptingConnection, SelectGamepad 0, Poll restingPad,
      AddMapping axis 0 ''turn'', SetSendByInterval True, SetSendHz 10, ToggleStreaming]"

text \<open>The interval session on a connection whose publish call throws.\<close>

definition startFailingIntervalSession :: "action list" where
  "startFailingIntervalSession =
     [Connect failingConnection, SelectGamepad 0, Poll restingPad,
      AddMapping axis 0 ''turn'', SetSendByInterval True, SetSendHz 10, ToggleStreaming]"

section \<open>Properties of the filter, the builder and the publish call\<close>

lemma buildPayload_fold_other:
  "f \<notin> fieldName ` set ms \<Longrightarrow>
   fold (\<lambda>mapping p. setField p (fieldName mapping) (fieldValue gs mapping)) ms acc f = acc f"
  by (induction ms arbitrary: acc) (auto simp: setField_def)

lemma buildPayload_fold_dom:
  "dom (fold (\<lambda>mapping p. setField p (fieldName mapping) (fieldValue gs mapping)) ms acc) =
   dom acc \<union> (fieldName ` set ms - {''__proto__''})"
  by (induction ms arbitrary: acc) (auto simp: setField_def)

lemma buildPayload_dom:
  "dom (buildPayload gs ms) = fieldName ` set ms - {''__proto__''}"
  by (simp add: buildPayload_def buildPayload_fold_dom)

lemma buildPayload_last_writer:
  "fieldName m \<notin> fieldName ` set post \<Longrightarrow>
   buildPayload gs (pre @ m # post) (fieldName m) =
     (if fieldName m = ''__proto__'' then None else Some (fieldValue gs m))"
proof (cases "fieldName m = ''__proto__''")
  case True
  have "''__proto__'' \<notin> dom (buildPayload gs (pre @ m # post))"
    by (simp add: buildPayload_dom)
  with True show ?thesis
    by (simp add: domIff)
next
  case False
  assume "fieldName m \<notin> fieldName ` set post"
  with False show ?thesis
    by (simp add: buildPayload_def buildPayload_fold_other) (simp add: setField_def)
qed

lemma fieldValue_outOfRange: "outOfRange gs m \<Longrightarrow> fieldValue gs m = 0"
  by (cases "type m")
    (simp_all add: outOfRange_def fieldValue_def rawValue_def currentValue_def
      toFixed2_def deadZone_def)

section \<open>Properties of the change detection and of the effect\<close>

lemma detect_noop:
  "\<not> channelChanged (sentState d) (axisValues d) gs m \<Longrightarrow>
   detectMapping gs m d = d\<lparr>built := setField (built d) (fieldName m) (fieldValue gs m)\<rparr>"
  by (cases "type m") (auto simp: channelChanged_def detectMapping_def fieldValue_def Let_def)

lemma detect_hasChange_step:
  "hasChange (detectMapping gs m d) = (hasChange d \<or> channelChanged (sentState d) (axisValues d) gs m)"
  by (cases "type m") (auto simp: channelChanged_def detectMapping_def Let_def)

lemma detect_after:
  "\<not> channelChanged (sentState (detectMapping gs m d)) (axisValues (detectMapping gs m d)) gs m"
  by (cases "type m") (auto simp: channelChanged_def detectMapping_def Let_def)

lemma detect_built_step:
  "built (detectMapping gs m d) = setField (built d) (fieldName m) (fieldValue gs m)"
  by (cases "type m") (auto simp: detectMapping_def fieldValue_def Let_def)

lemma detect_fold_built:
  "built (fold (detectMapping gs) ms d) =
   fold (\<lambda>mapping p. setField p (fieldName mapping) (fieldValue gs mapping)) ms (built d)"
  by (induction ms arbitrary: d) (simp_all add: detect_built_step)

lemma changed_mono:
  "channelChanged (sentState d) (axisValues d) gs m \<or>
     channelChanged (sentState (detectMapping gs m d)) (axisValues (detectMapping gs m d)) gs m' \<longleftrightarrow>
   channelChanged (sentState d) (axisValues d) gs m \<or>
     channelChanged (sentState d) (axisValues d) gs m'"
  by (cases "channelChanged (sentState d) (axisValues d) gs m") (simp_all add: detect_noop)

lemma changed_mono_list:
  "channelChanged (sentState d) (axisValues d) gs m \<or>
     list_ex (channelChanged (sentState (detectMapping gs m d)) (axisValues (detectMapping gs m d)) gs) ms \<longleftrightarrow>
   channelChanged (sentState d) (axisValues d) gs m \<or>
     list_ex (channelChanged (sentState d) (axisValues d) gs) ms"
  by (cases "channelChanged (sentState d) (axisValues d) gs m") (simp_all add: detect_noop)

lemma detect_fold_hasChange:
  "hasChange (fold (detectMapping gs) ms d) =
   (hasChange d \<or> list_ex (channelChanged (sentState d) (axisValues d) gs) ms)"
proof (induction ms arbitrary: d)
  case Nil
  show ?case by simp
next
  case (Cons m ms)
  show ?case
    using changed_mono_list [of d gs m ms]
    by (simp add: Cons.IH detect_hasChange_step)
qed


lemma rerun_changeDetect:
  assumes "isStreaming s" and "natsConnection s = Some nc" and "gamepadState s = Some gs"
    and "mappings s \<noteq> []" and "\<not> sendByInterval s"
  shows "published (rerun s) =
         (if list_ex (channelChanged (lastSentState s) (lastAxisValues s) gs) (mappings s)
          then published s @ [buildPayload gs (mappings s)] else published s)"
  using assms
  by (simp add: rerun_def cleanup_def streamingEffect_def Let_def detect_fold_hasChange
      detect_fold_built sendPayload_def buildPayload_def split: outcome.split)

lemma rerun_fields:
  "isStreaming (rerun s) = isStreaming s \<and> natsConnection (rerun s) = natsConnection s \<and>
   gamepadState (rerun s) = gamepadState s \<and> mappings (rerun s) = mappings s \<and>
   sendByInterval (rerun s) = sendByInterval s \<and> sendHz (rerun s) = sendHz s \<and>
   subject (rerun s) = subject s \<and> isConnected (rerun s) = isConnected s \<and>
   selectedGamepadIndex (rerun s) = selectedGamepadIndex s"
  by (simp add: rerun_def cleanup_def streamingEffect_def Let_def sendPayload_def
      split: option.split outcome.split)

lemma rerun_stopped:
  "\<not> isStreaming s \<Longrightarrow> rerun s = s\<lparr>intervalId := None\<rparr>"
  by (simp add: rerun_def cleanup_def streamingEffect_def)

lemma detect_fold_axis_untouched:
  "\<not> list_ex (samePair axis i) ms \<Longrightarrow>
   axisValues (fold (detectMapping gs) ms d) i = axisValues d i"
proof (induction ms arbitrary: d)
  case Nil
  show ?case by simp
next
  case (Cons m ms)
  have "axisValues (detectMapping gs m d) i = axisValues d i"
    using Cons.prems
    by (cases "type m") (auto simp: detectMapping_def Let_def samePair_def)
  with Cons show ?case by simp
qed

lemma detect_fold_button_untouched:
  "\<not> list_ex (samePair button i) ms \<Longrightarrow>
   sentState (fold (detectMapping gs) ms d) i = sentState d i"
proof (induction ms arbitrary: d)
  case Nil
  show ?case by simp
next
  case (Cons m ms)
  have "sentState (detectMapping gs m d) i = sentState d i"
    using Cons.prems
    by (cases "type m") (auto simp: detectMapping_def Let_def samePair_def)
  with Cons show ?case by simp
qed

lemma rerun_axis_latch:
  "\<not> list_ex (samePair axis i) (mappings s) \<Longrightarrow> lastAxisValues (rerun s) i = lastAxisValues s i"
  by (simp add: rerun_def cleanup_def streamingEffect_def Let_def sendPayload_def
      detect_fold_axis_untouched split: option.split outcome.split)

lemma rerun_button_latch:
  "\<not> list_ex (samePair button i) (mappings s) \<Longrightarrow> lastSentState (rerun s) i = lastSentState s i"
  by (simp add: rerun_def cleanup_def streamingEffect_def Let_def sendPayload_def
      detect_fold_button_untouched split: option.split outcome.split)

lemma removeMapping_none: "\<not> list_ex (samePair t i) (removeMapping t i ms)"
  by (simp add: removeMapping_def list_ex_iff)

section \<open>The actions one by one\<close>

lemma step_Connect:
  "step (Connect nc) s =
     (if isConnected s then s else rerun (s\<lparr>natsConnection := Some nc, isConnected := True\<rparr>))"
  by (auto simp: step_def available_def perform_def)

lemma step_SelectGamepad: "step (SelectGamepad n) s = s\<lparr>selectedGamepadIndex := Some n\<rparr>"
  by (auto simp: step_def available_def perform_def)

lemma step_Poll:
  "step (Poll gs) s =
     (if selectedGamepadIndex s \<noteq> None then rerun (s\<lparr>gamepadState := Some gs\<rparr>) else s)"
  by (auto simp: step_def available_def perform_def)

lemma step_ToggleStreaming:
  "step ToggleStreaming s =
     (if selectedGamepadIndex s \<noteq> None \<and> isConnected s \<and> mappings s \<noteq> []
      then rerun (s\<lparr>isStreaming := \<not> isStreaming s\<rparr>) else s)"
  by (auto simp: step_def available_def perform_def)

lemma step_AddMapping:
  "step (AddMapping t i name) s =
     (case gamepadState s of
        None \<Rightarrow> s
      | Some gs \<Rightarrow>
          if selectedGamepadIndex s \<noteq> None \<and> inRange gs t i \<and> trim name \<noteq> []
          then rerun (s\<lparr>mappings := filter (\<lambda>m. \<not> samePair t i m) (mappings s) @
                  [\<lparr>type = t, index = i, fieldName = trim name\<rparr>]\<rparr>)
          else s)"
  by (auto simp: step_def available_def perform_def addMapping_def split: option.split)

lemma step_RemoveMapping:
  "step (RemoveMapping t i) s =
     (case gamepadState s of
        None \<Rightarrow> s
      | Some gs \<Rightarrow>
          if selectedGamepadIndex s \<noteq> None \<and> inRange gs t i \<and>
             find (samePair t i) (mappings s) \<noteq> None
          then rerun (s\<lparr>mappings := filter (\<lambda>m. \<not> samePair t i m) (mappings s)\<rparr>)
          else s)"
  by (auto simp: step_def available_def perform_def removeMapping_def getMapping_def
      split: option.split)

lemma step_LoadConfig: "step (LoadConfig c) s = rerun (handleLoadConfig c s)"
  by (auto simp: step_def available_def perform_def)

lemma step_SetSendHz:
  "step (SetSendHz v) s =
     (if sendByInterval s \<and> \<not> isStreaming s \<and> clampHz v \<noteq> sendHz s
      then rerun (s\<lparr>sendHz := clampHz v\<rparr>) else s)"
  by (auto simp: step_def available_def perform_def)

lemma step_SetSendByInterval:
  "step (SetSendByInterval b) s =
     (if \<not> isStreaming s \<and> b \<noteq> sendByInterval s then rerun (s\<lparr>sendByInterval := b\<rparr>)
      else s)"
  by (auto simp: step_def available_def perform_def)

lemma step_Elapse: "step (Elapse d) s = (if 0 \<le> d then elapse d s else s)"
  by (auto simp: step_def available_def perform_def)

lemma run_Nil: "run [] s = s"
  by (simp add: run_def)

lemma run_Cons: "run (a # as) s = run as (step a s)"
  by (simp add: run_def)

lemma run_append: "run (as @ bs) s = run bs (run as s)"
  by (simp add: run_def)

lemma detectMapping_eval:
  "detectMapping gs \<lparr>type = t, index = i, fieldName = f\<rparr>
     \<lparr>hasChange = h, sentState = b, axisValues = v, built = p\<rparr> =
   (case t of
      button \<Rightarrow> \<lparr>hasChange = (h \<or> elemAt (buttons gs) i \<noteq> b i),
                  sentState = b(i := elemAt (buttons gs) i), axisValues = v,
                  built = setField p f (if elemAt (buttons gs) i = Some True then 1 else 0)\<rparr>
    | axis \<Rightarrow> \<lparr>hasChange = (h \<or> v i \<noteq> Some (currentValue (rawValue gs i))),
                sentState = b, axisValues = v(i \<mapsto> currentValue (rawValue gs i)),
                built = setField p f (toFixed2 (currentValue (rawValue gs i)))\<rparr>)"
  by (cases t) (auto simp: detectMapping_def Let_def)

lemma trim_fire: "trim ''fire'' = ''fire''"
  by (simp add: trim_def isSpace_def)

lemma trim_turn: "trim ''turn'' = ''turn''"
  by (simp add: trim_def isSpace_def)

lemmas evaluation =
  step_Connect step_SelectGamepad step_Poll step_ToggleStreaming step_AddMapping
  step_RemoveMapping step_LoadConfig step_SetSendHz step_SetSendByInterval step_Elapse
  run_Nil run_Cons rerun_def cleanup_def streamingEffect_def detectMapping_eval
  sendPayload_def setField_def initial_def handleLoadConfig_def samePair_def trim_fire
  trim_turn
  inRange_def elemAt_def rawValue_def currentValue_def deadZone_def clampHz_def
  timerDelay_def elapse_def fire_def fires_def mount_def Let_def
  acceptingConnection_def restingPad_def movedPad_def wideConfig_def fastConfig_def
  savedConfig_def
  startSession_def startWideSession_def startIntervalSession_def

lemma startSession_state:
  "run startSession initial =
     \<lparr>natsUrl = ''ws://localhost:9222'', subject = ''joystick.data'',
      natsConnection = Some acceptingConnection, isConnected = True, isStreaming = True,
      mappings = [\<lparr>type = button, index = 0, fieldName = ''fire''\<rparr>,
                  \<lparr>type = axis, index = 0, fieldName = ''turn''\<rparr>],
      lastMessage = Some [''fire'' \<mapsto> 0, ''turn'' \<mapsto> 0.12],
      sendHz = 2, sendByInterval = False, selectedGamepadIndex = Some 0,
      gamepadState = Some restingPad,
      lastSentState = (\<lambda>i. None)(0 := Some False), lastAxisValues = (\<lambda>i. None)(0 \<mapsto> 0.123),
      intervalId = None, published = [[''fire'' \<mapsto> 0, ''turn'' \<mapsto> 0.12]]\<rparr>"
  by (simp add: evaluation toFixed2_def)

lemma polls_stopped:
  "\<not> isStreaming s \<Longrightarrow>
   fold (\<lambda>g. perform (Poll g)) gss (s\<lparr>intervalId := None\<rparr>) =
     s\<lparr>gamepadState := (if gss = [] then gamepadState s else Some (last gss)),
       intervalId := None\<rparr>"
proof (induction gss arbitrary: s)
  case Nil
  show ?case by simp
next
  case (Cons g gss)
  have "perform (Poll g) (s\<lparr>intervalId := None\<rparr>) = (s\<lparr>gamepadState := Some g\<rparr>)\<lparr>intervalId := None\<rparr>"
    using Cons.prems by (simp add: perform_def rerun_stopped)
  moreover have "\<not> isStreaming (s\<lparr>gamepadState := Some g\<rparr>)"
    using Cons.prems by simp
  ultimately show ?case
    using Cons.IH [of "s\<lparr>gamepadState := Some g\<rparr>"] by simp
qed

lemma perform_RemoveMapping_fields:
  "isStreaming (perform (RemoveMapping t i) s) = isStreaming s \<and>
   natsConnection (perform (RemoveMapping t i) s) = natsConnection s \<and>
   gamepadState (perform (RemoveMapping t i) s) = gamepadState s \<and>
   sendByInterval (perform (RemoveMapping t i) s) = sendByInterval s \<and>
   mappings (perform (RemoveMapping t i) s) = removeMapping t i (mappings s)"
  by (simp add: perform_def rerun_fields)

lemma addMapping_pair:
  "trim name \<noteq> [] \<Longrightarrow>
   filter (samePair t i) (addMapping t i name ms) = [\<lparr>type = t, index = i, fieldName = trim name\<rparr>]"
  by (simp add: addMapping_def samePair_def)

lemma uniquePairs_filter: "uniquePairs ms \<Longrightarrow> uniquePairs (filter P ms)"
  by (simp add: uniquePairs_def distinct_map_filter)

lemma uniquePairs_add: "uniquePairs ms \<Longrightarrow> uniquePairs (addMapping t i name ms)"
  by (auto simp: addMapping_def uniquePairs_def distinct_map_filter samePair_def)

lemma startIntervalSession_state:
  "run startIntervalSession initial =
     \<lparr>natsUrl = ''ws://localhost:9222'', subject = ''joystick.data'',
      natsConnection = Some acceptingConnection, isConnected = True, isStreaming = True,
      mappings = [\<lparr>type = axis, index = 0, fieldName = ''turn''\<rparr>],
      lastMessage = None, sendHz = 10, sendByInterval = True, selectedGamepadIndex = Some 0,
      gamepadState = Some restingPad,
      lastSentState = (\<lambda>i. None), lastAxisValues = (\<lambda>i. None),
      intervalId = Some \<lparr>delay = 100, dueIn = 100, ivState = restingPad,
        ivMappings = [\<lparr>type = axis, index = 0, fieldName = ''turn''\<rparr>],
        ivSubject = ''joystick.data'', ivConnection = acceptingConnection\<rparr>,
      published = []\<rparr>"
  by (simp add: evaluation)

lemma poll_rearms_timer:
  assumes "isStreaming s" and "natsConnection s = Some nc" and "mappings s \<noteq> []"
    and "sendByInterval s" and "selectedGamepadIndex s \<noteq> None"
  shows "step (Poll g) s =
     s\<lparr>gamepadState := Some g,
       intervalId := Some \<lparr>delay = timerDelay (1000 / sendHz s),
         dueIn = timerDelay (1000 / sendHz s), ivState = g, ivMappings = mappings s,
         ivSubject = subject s, ivConnection = nc\<rparr>\<rparr>"
  using assms by (simp add: step_Poll rerun_def cleanup_def streamingEffect_def)

lemma elapse_before_due:
  "intervalId s = Some iv \<Longrightarrow> d < dueIn iv \<Longrightarrow>
   step (Elapse d) s = s \<or> step (Elapse d) s = s\<lparr>intervalId := Some (iv\<lparr>dueIn := dueIn iv - d\<rparr>)\<rparr>"
  by (simp add: step_Elapse elapse_def fires_def)

lemma poll_after_gap:
  assumes "isStreaming s" and "natsConnection s = Some nc" and "mappings s \<noteq> []"
    and "sendByInterval s" and "selectedGamepadIndex s \<noteq> None"
    and "d < timerDelay (1000 / sendHz s)"
  shows "step (Poll g) (step (Elapse d) (step (Poll g0) s)) = step (Poll g) s"
proof -
  let ?iv = "\<lparr>delay = timerDelay (1000 / sendHz s),
         dueIn = timerDelay (1000 / sendHz s), ivState = g0, ivMappings = mappings s,
         ivSubject = subject s, ivConnection = nc\<rparr>"
  let ?a = "s\<lparr>gamepadState := Some g0, intervalId := Some ?iv\<rparr>"
  have a: "step (Poll g0) s = ?a"
    using assms by (simp add: poll_rearms_timer)
  have "step (Elapse d) ?a = ?a \<or>
        step (Elapse d) ?a = ?a\<lparr>intervalId := Some (?iv\<lparr>dueIn := dueIn ?iv - d\<rparr>)\<rparr>"
    using assms(6) by (intro elapse_before_due) simp_all
  then show ?thesis
    unfolding a using assms
    by (auto simp: step_Poll rerun_def cleanup_def streamingEffect_def)
qed

text \<open>
  A snapshot tick in change-detection mode: it publishes the whole payload exactly when
  the code's test finds a changed channel.
\<close>

lemma changeDetect_tick:
  assumes "isStreaming s" and "natsConnection s = Some nc" and "mappings s \<noteq> []"
    and "\<not> sendByInterval s"
  shows "published (perform (Poll gs) s) =
           (if list_ex (channelChanged (lastSentState s) (lastAxisValues s) gs) (mappings s)
            then published s @ [buildPayload gs (mappings s)] else published s) \<and>
         dom (buildPayload gs (mappings s)) = fieldName ` set (mappings s) - {''__proto__''}"
  using assms rerun_changeDetect [of "s\<lparr>gamepadState := Some gs\<rparr>" nc gs]
  by (simp add: perform_def buildPayload_dom)

text \<open>
  The code's test and the specification's test agree on every axis and on every button the
  snapshot has.
\<close>

lemma specChanged_in_range:
  "type m = axis \<or> elemAt (buttons gs) (index m) \<noteq> None \<Longrightarrow>
   specChanged sent vals gs m = channelChanged sent vals gs m"
  by (cases "type m") (auto simp: specChanged_def channelChanged_def)

lemma changeDetect_tick_spec:
  assumes "isStreaming s" and "natsConnection s = Some nc" and "mappings s \<noteq> []"
    and "\<not> sendByInterval s"
    and "list_all (\<lambda>m. type m = axis \<or> elemAt (buttons gs) (index m) \<noteq> None) (mappings s)"
  shows "published (perform (Poll gs) s) =
           (if list_ex (specChanged (lastSentState s) (lastAxisValues s) gs) (mappings s)
            then published s @ [buildPayload gs (mappings s)] else published s)"
proof -
  have "list_ex (specChanged (lastSentState s) (lastAxisValues s) gs) (mappings s) =
        list_ex (channelChanged (lastSentState s) (lastAxisValues s) gs) (mappings s)"
    using assms(5) by (auto simp: list_ex_iff list_all_iff specChanged_in_range)
  then show ?thesis
    using changeDetect_tick [OF assms(1-4), of gs] by simp
qed

text \<open>
  Raw axis values 0.123 and then 0.124 both round to 0.12 in the payload; the second
  tick publishes all the same, since the filtered values differ before rounding.
\<close>

lemma changeDetect_tick_example:
  "isStreaming (run startSession initial) \<and>
   natsConnection (run startSession initial) = Some acceptingConnection \<and>
   mappings (run startSession initial) =
     [\<lparr>type = button, index = 0, fieldName = ''fire''\<rparr>,
      \<lparr>type = axis, index = 0, fieldName = ''turn''\<rparr>] \<and>
   \<not> sendByInterval (run startSession initial) \<and>
   published (run startSession initial) = [[''fire'' \<mapsto> 0, ''turn'' \<mapsto> 0.12]] \<and>
   published (perform (Poll restingPad) (run startSession initial)) =
     [[''fire'' \<mapsto> 0, ''turn'' \<mapsto> 0.12]] \<and>
   published (perform (Poll movedPad) (run startSession initial)) =
     [[''fire'' \<mapsto> 0, ''turn'' \<mapsto> 0.12], [''fire'' \<mapsto> 0, ''turn'' \<mapsto> 0.12]]"
proof -
  let ?s = "run startSession initial"
  have h1: "isStreaming ?s" and h2: "natsConnection ?s = Some acceptingConnection"
    and h3: "mappings ?s \<noteq> []" and h4: "\<not> sendByInterval ?s"
    by (simp_all add: startSession_state)
  show ?thesis
    using changeDetect_tick [OF h1 h2 h3 h4, of restingPad]
      changeDetect_tick [OF h1 h2 h3 h4, of movedPad]
    by (simp add: startSession_state channelChanged_def buildPayload_def setField_def fieldValue_def
        toFixed2_def elemAt_def rawValue_def currentValue_def deadZone_def restingPad_def
        movedPad_def)
qed

text \<open>
  The last message through the firings of the timer and through a change-detection tick.
\<close>

lemma startFailingIntervalSession_state:
  "run startFailingIntervalSession initial =
     \<lparr>natsUrl = ''ws://localhost:9222'', subject = ''joystick.data'',
      natsConnection = Some failingConnection, isConnected = True, isStreaming = True,
      mappings = [\<lparr>type = axis, index = 0, fieldName = ''turn''\<rparr>],
      lastMessage = None, sendHz = 10, sendByInterval = True, selectedGamepadIndex = Some 0,
      gamepadState = Some restingPad,
      lastSentState = (\<lambda>i. None), lastAxisValues = (\<lambda>i. None),
      intervalId = Some \<lparr>delay = 100, dueIn = 100, ivState = restingPad,
        ivMappings = [\<lparr>type = axis, index = 0, fieldName = ''turn''\<rparr>],
        ivSubject = ''joystick.data'', ivConnection = failingConnection\<rparr>,
      published = []\<rparr>"
  by (simp add: evaluation startFailingIntervalSession_def)

lemma fire_funpow_threw:
  "ivConnection iv (ivSubject iv) (buildPayload (ivState iv) (ivMappings iv)) = Threw \<Longrightarrow>
   lastMessage ((fire iv ^^ n) s) = lastMessage s"
  by (induction n) (simp_all add: fire_def sendPayload_def)

lemma fire_funpow_returned:
  "ivConnection iv (ivSubject iv) (buildPayload (ivState iv) (ivMappings iv)) = Returned \<Longrightarrow>
   lastMessage ((fire iv ^^ n) s) =
     (if n = 0 then lastMessage s else Some (buildPayload (ivState iv) (ivMappings iv)))"
  by (induction n) (simp_all add: fire_def sendPayload_def)

lemma fire_published:
  "length (published (fire iv s)) = Suc (length (published s))"
  by (simp add: fire_def sendPayload_def split: outcome.split)

lemma fire_funpow_published:
  "length (published ((fire iv ^^ n) s)) = length (published s) + n"
  by (induction n) (simp_all add: fire_published)

lemma elapse_lastMessage_threw:
  "intervalId s = Some iv \<Longrightarrow>
   ivConnection iv (ivSubject iv) (buildPayload (ivState iv) (ivMappings iv)) = Threw \<Longrightarrow>
   lastMessage (step (Elapse d) s) = lastMessage s"
  by (simp add: step_Elapse elapse_def fire_funpow_threw)

lemma elapse_lastMessage_returned:
  "intervalId s = Some iv \<Longrightarrow> 0 \<le> d \<Longrightarrow>
   ivConnection iv (ivSubject iv) (buildPayload (ivState iv) (ivMappings iv)) = Returned \<Longrightarrow>
   lastMessage (step (Elapse d) s) =
     (if d < dueIn iv then lastMessage s else Some (buildPayload (ivState iv) (ivMappings iv)))"
  by (simp add: step_Elapse elapse_def fire_funpow_returned fires_def)

lemma elapse_published:
  "intervalId s = Some iv \<Longrightarrow> 0 \<le> d \<Longrightarrow>
   length (published (step (Elapse d) s)) = length (published s) + fires d iv"
  by (simp add: step_Elapse elapse_def fire_funpow_published)

lemma poll_lastMessage:
  assumes "isStreaming s" and "natsConnection s = Some nc" and "mappings s \<noteq> []"
    and "\<not> sendByInterval s"
  shows "lastMessage (perform (Poll gs) s) =
     (if list_ex (channelChanged (lastSentState s) (lastAxisValues s) gs) (mappings s)
      then (case nc (subject s) (buildPayload gs (mappings s)) of
              Returned \<Rightarrow> Some (buildPayload gs (mappings s))
            | Threw \<Rightarrow> lastMessage s)
      else lastMessage s)"
  using assms
  by (simp add: perform_def rerun_def cleanup_def streamingEffect_def Let_def
      detect_fold_hasChange detect_fold_built sendPayload_def buildPayload_def
      split: outcome.split)

section \<open>The claims\<close>

text \<open>
  Claim C1: in change-detection mode, on a snapshot tick while streaming with a non-empty
  mapping table, a publish occurs if and only if some mapped channel's filtered value
  differs from its latch or its latch does not yet exist, and the payload then holds
  every mapped field. The code does so for every axis and for every button the snapshot
  has. For a mapped button whose index the snapshot does not have it does not: with the
  mapping of button 5 loaded from a configuration and a device with one button, the
  latch does not exist, and still neither the tick at the start nor the next snapshot
  publishes, because the reading and the latch are both \<^verbatim>\<open>undefined\<close>. The axis
  branch, which reads \<^verbatim>\<open>axes[index] || 0\<close> and tests the latch for \<^verbatim>\<open>undefined\<close>,
  does publish in the same situation.
\<close>

theorem changeDetect_missing_button:
  "isStreaming (run startWideSession initial) \<and>
   mappings (run startWideSession initial) = [\<lparr>type = button, index = 5, fieldName = ''fire''\<rparr>] \<and>
   lastSentState (run startWideSession initial) 5 = None \<and>
   list_ex (specChanged (lastSentState (run startWideSession initial))
              (lastAxisValues (run startWideSession initial)) restingPad)
     (mappings (run startWideSession initial)) \<and>
   published (run startWideSession initial) = [] \<and>
   published (step (Poll restingPad) (run startWideSession initial)) = [] \<and>
   published (run [Connect acceptingConnection, SelectGamepad 0, Poll restingPad,
                   LoadConfig wideAxisConfig, ToggleStreaming] initial) = [[''turn'' \<mapsto> 0]]"
  by (simp add: evaluation specChanged_def wideAxisConfig_def toFixed2_def)

text \<open>
  Claim C2, as stated: the latches are cleared when streaming stops, so the first tick
  after a restart always publishes. Nothing in the component clears
  \<open>lastSentState\<close> or \<open>lastAxisValues\<close>: after start, stop and restart with the
  axis at its prior value, neither the tick at the restart nor the next snapshot
  publishes, and the session has still published once only.
\<close>

theorem restart_counterexample:
  "length (published (run startSession initial)) = 1 \<and>
   \<not> isStreaming (run (startSession @ [ToggleStreaming]) initial) \<and>
   isStreaming (run (startSession @ [ToggleStreaming, ToggleStreaming]) initial) \<and>
   length (published (run (startSession @ [ToggleStreaming, ToggleStreaming]) initial)) = 1 \<and>
   length (published (run (startSession @ [ToggleStreaming, ToggleStreaming, Poll restingPad])
     initial)) = 1"
  by (simp add: run_append startSession_state) (simp add: evaluation)

text \<open>
  Claim C2, amended: the latches are not cleared when streaming stops. Stopping a
  change-detection session, and any snapshots that arrive while it is stopped, leave both
  latch maps as they were and publish nothing; the tick at the restart publishes if and
  only if some mapped channel of the then-current snapshot differs from its retained
  latch (or is an axis without a latch).
\<close>

theorem restart_keeps_latches:
  assumes "isStreaming s" and "natsConnection s = Some nc" and "gamepadState s = Some gs"
    and "mappings s \<noteq> []" and "\<not> sendByInterval s"
  shows "(let stopped = fold (\<lambda>g. perform (Poll g)) gss (perform ToggleStreaming s);
              restarted = perform ToggleStreaming stopped;
              g = last (gs # gss)
          in \<not> isStreaming stopped \<and>
             lastSentState stopped = lastSentState s \<and>
             lastAxisValues stopped = lastAxisValues s \<and>
             published stopped = published s \<and>
             isStreaming restarted \<and>
             published restarted =
               (if list_ex (channelChanged (lastSentState s) (lastAxisValues s) g) (mappings s)
                then published s @ [buildPayload g (mappings s)] else published s))"
proof -
  let ?g = "last (gs # gss)"
  let ?s0 = "s\<lparr>isStreaming := False\<rparr>"
  let ?s1 = "?s0\<lparr>gamepadState := (if gss = [] then gamepadState ?s0 else Some (last gss)),
               intervalId := None\<rparr>"
  let ?s2 = "s\<lparr>gamepadState := Some ?g, isStreaming := True, intervalId := None\<rparr>"
  have stop: "perform ToggleStreaming s = ?s0\<lparr>intervalId := None\<rparr>"
    using assms(1) by (simp add: perform_def rerun_stopped)
  have stopped: "fold (\<lambda>g. perform (Poll g)) gss (perform ToggleStreaming s) = ?s1"
    unfolding stop by (rule polls_stopped) simp
  have g: "gamepadState ?s1 = Some ?g"
    using assms(3) by simp
  have restart: "perform ToggleStreaming ?s1 = rerun ?s2"
    using assms(3) by (simp add: perform_def rerun_def cleanup_def)
  have pub: "published (rerun ?s2) =
      (if list_ex (channelChanged (lastSentState s) (lastAxisValues s) ?g) (mappings s)
       then published s @ [buildPayload ?g (mappings s)] else published s)"
    using assms rerun_changeDetect [of ?s2 nc ?g] by simp
  have "isStreaming (rerun ?s2)"
    by (simp add: rerun_fields)
  with pub show ?thesis
    unfolding Let_def stopped restart by simp
qed

theorem restart_keeps_latches_witness:
  "published (perform ToggleStreaming (fold (\<lambda>g. perform (Poll g)) [movedPad, restingPad]
      (perform ToggleStreaming (run startSession initial)))) =
     published (run startSession initial) \<and>
   published (perform ToggleStreaming (fold (\<lambda>g. perform (Poll g)) [restingPad, movedPad]
      (perform ToggleStreaming (run startSession initial)))) =
     published (run startSession initial) @ [[''fire'' \<mapsto> 0, ''turn'' \<mapsto> 0.12]]"
proof -
  let ?s = "run startSession initial"
  have h1: "isStreaming ?s" and h2: "natsConnection ?s = Some acceptingConnection"
    and h3: "gamepadState ?s = Some restingPad"
    and h4: "mappings ?s \<noteq> []" and h5: "\<not> sendByInterval ?s"
    by (simp_all add: startSession_state)
  show ?thesis
    using restart_keeps_latches [OF h1 h2 h3 h4 h5, of "[movedPad, restingPad]"]
      restart_keeps_latches [OF h1 h2 h3 h4 h5, of "[restingPad, movedPad]"]
    by (simp add: Let_def startSession_state channelChanged_def buildPayload_def setField_def fieldValue_def
        toFixed2_def elemAt_def rawValue_def currentValue_def deadZone_def restingPad_def
        movedPad_def)
qed

text \<open>
  Claim C3: in interval mode the timer fires every \<open>1000 / sendHz\<close> ms independently of
  the snapshot cadence, so that \<open>sendHz = 10\<close> gives ten publishes in 1000 ms. The code
  does not do this. The snapshot is a dependency of the streaming effect, so every
  snapshot runs the cleanup and arms a new timer; when each snapshot comes sooner than
  the timer's delay, the timer never fires and nothing is published. The witness runs
  63 snapshots 16 ms apart (1008 ms) at 10 Hz: no publish, where the same session left
  alone for 1000 ms publishes ten times.
\<close>

theorem interval_timer_starved:
  assumes "isStreaming s" and "natsConnection s = Some nc" and "mappings s \<noteq> []"
    and "sendByInterval s" and "selectedGamepadIndex s \<noteq> None"
    and "list_all (\<lambda>(d, g). d < timerDelay (1000 / sendHz s)) ticks"
  shows "published (fold (\<lambda>(d, g) s'. step (Poll g) (step (Elapse d) s')) ticks
           (step (Poll g0) s)) = published s"
  using assms(6)
proof (induction ticks arbitrary: g0)
  case Nil
  show ?case
    using assms(1-5) by (simp add: poll_rearms_timer)
next
  case (Cons tick ticks)
  obtain d g where tick: "tick = (d, g)"
    by (cases tick)
  have "d < timerDelay (1000 / sendHz s)"
    using Cons.prems by (simp add: tick)
  then have "step (Poll g) (step (Elapse d) (step (Poll g0) s)) = step (Poll g) s"
    using assms(1-5) by (rule poll_after_gap [rotated -1])
  moreover have "list_all (\<lambda>(d, g). d < timerDelay (1000 / sendHz s)) ticks"
    using Cons.prems by simp
  ultimately show ?case
    using Cons.IH [of g] by (simp add: tick)
qed

theorem interval_timer_starved_witness:
  "timerDelay (1000 / sendHz (run startIntervalSession initial)) = 100 \<and>
   length (replicate 63 (16 :: real, restingPad)) * 16 = 1008 \<and>
   published (fold (\<lambda>(d, g) s'. step (Poll g) (step (Elapse d) s'))
     (replicate 63 (16, restingPad)) (step (Poll restingPad) (run startIntervalSession initial))) = [] \<and>
   length (published (step (Elapse 1000) (run startIntervalSession initial))) = 10"
proof -
  let ?s = "run startIntervalSession initial"
  have h1: "isStreaming ?s" and h2: "natsConnection ?s = Some acceptingConnection"
    and h3: "mappings ?s \<noteq> []" and h4: "sendByInterval ?s"
    and h5: "selectedGamepadIndex ?s \<noteq> None"
    and d: "timerDelay (1000 / sendHz ?s) = 100"
    by (simp_all add: startIntervalSession_state timerDelay_def)
  have h6: "list_all (\<lambda>(d, g). d < timerDelay (1000 / sendHz ?s)) (replicate 63 (16, restingPad))"
    unfolding d by (simp add: list_all_iff)
  have ten: "length (published (step (Elapse 1000) ?s)) = 10"
    by (simp add: startIntervalSession_state step_Elapse elapse_def fires_def fire_def
        sendPayload_def acceptingConnection_def eval_nat_numeral)
  show ?thesis
    using interval_timer_starved [OF h1 h2 h3 h4 h5 h6, of restingPad] d ten
    by (simp add: startIntervalSession_state)
qed

text \<open>
  Claim C4. The payload builder is total and has no error branch: it is a function into
  payloads, every array read being \<open>elemAt\<close> and no assignment raising. For a mapping
  whose index is outside the snapshot's button or axis range the value it emits is \<open>0\<close>,
  and the built payload holds \<open>0\<close> under its field name, when no later mapping writes
  the same name and the name is not \<^verbatim>\<open>__proto__\<close>, under which a plain object takes no
  property; so axis index 99 on a device with four axes gives \<open>0\<close>.
\<close>

theorem buildPayload_outOfRange_default:
  "outOfRange gs m \<Longrightarrow>
   fieldValue gs m = 0 \<and>
   (fieldName m \<notin> fieldName ` set post \<longrightarrow>
      buildPayload gs (pre @ m # post) (fieldName m) =
        (if fieldName m = ''__proto__'' then None else Some 0))"
  by (simp add: fieldValue_outOfRange buildPayload_last_writer)

theorem buildPayload_outOfRange_default_witness:
  "outOfRange fourAxisPad \<lparr>type = axis, index = 99, fieldName = ''turn''\<rparr> \<and>
   fieldValue fourAxisPad \<lparr>type = axis, index = 99, fieldName = ''turn''\<rparr> = 0 \<and>
   buildPayload fourAxisPad
     [\<lparr>type = button, index = 0, fieldName = ''fire''\<rparr>,
      \<lparr>type = axis, index = 99, fieldName = ''turn''\<rparr>] ''turn'' = Some 0 \<and>
   outOfRange fourAxisPad \<lparr>type = button, index = 7, fieldName = ''__proto__''\<rparr> \<and>
   fieldValue fourAxisPad \<lparr>type = button, index = 7, fieldName = ''__proto__''\<rparr> = 0 \<and>
   buildPayload fourAxisPad
     [\<lparr>type = button, index = 7, fieldName = ''__proto__''\<rparr>] ''__proto__'' = None"
proof -
  have oor: "outOfRange fourAxisPad \<lparr>type = axis, index = 99, fieldName = ''turn''\<rparr>"
    by (simp add: outOfRange_def elemAt_def fourAxisPad_def)
  have oor': "outOfRange fourAxisPad \<lparr>type = button, index = 7, fieldName = ''__proto__''\<rparr>"
    by (simp add: outOfRange_def elemAt_def fourAxisPad_def)
  show ?thesis
    using oor oor'
      buildPayload_outOfRange_default [OF oor, of "[]"
        "[\<lparr>type = button, index = 0, fieldName = ''fire''\<rparr>]"]
      buildPayload_outOfRange_default [OF oor', of "[]" "[]"]
    by simp
qed

text \<open>
  Claim C5. The deadzone filter with threshold \<open>0.05\<close> returns exactly \<open>0\<close> for every
  \<open>x\<close> with \<open>\<bar>x\<bar> < 0.05\<close> and returns \<open>x\<close> unchanged for every \<open>x\<close> with \<open>\<bar>x\<bar> \<ge> 0.05\<close>.
\<close>

theorem deadzone_filter:
  "(\<bar>x\<bar> < 0.05 \<longrightarrow> currentValue x = 0) \<and> (0.05 \<le> \<bar>x\<bar> \<longrightarrow> currentValue x = x)"
  by (simp add: currentValue_def deadZone_def)

theorem deadzone_filter_witness:
  "\<bar>0.049 :: real\<bar> < 0.05 \<and> currentValue 0.049 = 0 \<and>
   \<bar>- 0.049 :: real\<bar> < 0.05 \<and> currentValue (- 0.049) = 0 \<and>
   0.05 \<le> \<bar>0.05 :: real\<bar> \<and> currentValue 0.05 = 0.05 \<and>
   0.05 \<le> \<bar>- 0.32 :: real\<bar> \<and> currentValue (- 0.32) = - 0.32"
  using deadzone_filter [of "0.049"] deadzone_filter [of "- 0.049"]
    deadzone_filter [of "0.05"] deadzone_filter [of "- 0.32"]
  by simp

text \<open>
  Claim C6. Inserting a mapping for a pair of kind and index leaves exactly one entry
  for that pair in the table, the newly inserted one, whatever the table held before
  (last write wins); an insertion is a call with a name that is not blank, the name is
  stored trimmed, and a call with a blank name (white space only, no-break spaces
  included) is the no-op the component makes of it.
  Every add and every remove preserves "at most one mapping for each pair".
\<close>

theorem addMapping_last_write_wins:
  "(trim name \<noteq> [] \<longrightarrow>
      filter (samePair t i) (addMapping t i name ms) =
        [\<lparr>type = t, index = i, fieldName = trim name\<rparr>]) \<and>
   (trim name = [] \<longrightarrow> addMapping t i name ms = ms) \<and>
   (uniquePairs ms \<longrightarrow>
      uniquePairs (addMapping t i name ms) \<and> uniquePairs (removeMapping t i ms))"
  by (simp add: addMapping_pair uniquePairs_add removeMapping_def uniquePairs_filter)
    (simp add: addMapping_def)

theorem addMapping_last_write_wins_witness:
  "trim ''jump'' \<noteq> [] \<and>
   uniquePairs [\<lparr>type = button, index = 0, fieldName = ''fire''\<rparr>,
                \<lparr>type = axis, index = 0, fieldName = ''turn''\<rparr>] \<and>
   addMapping button 0 ''jump''
     [\<lparr>type = button, index = 0, fieldName = ''fire''\<rparr>,
      \<lparr>type = axis, index = 0, fieldName = ''turn''\<rparr>] =
     [\<lparr>type = axis, index = 0, fieldName = ''turn''\<rparr>,
      \<lparr>type = button, index = 0, fieldName = ''jump''\<rparr>] \<and>
   filter (samePair button 0) (addMapping button 0 ''jump''
     [\<lparr>type = button, index = 0, fieldName = ''fire''\<rparr>,
      \<lparr>type = axis, index = 0, fieldName = ''turn''\<rparr>]) =
     [\<lparr>type = button, index = 0, fieldName = ''jump''\<rparr>] \<and>
   uniquePairs (addMapping button 0 ''jump''
     [\<lparr>type = button, index = 0, fieldName = ''fire''\<rparr>,
      \<lparr>type = axis, index = 0, fieldName = ''turn''\<rparr>]) \<and>
   uniquePairs (removeMapping button 0
     [\<lparr>type = button, index = 0, fieldName = ''fire''\<rparr>,
      \<lparr>type = axis, index = 0, fieldName = ''turn''\<rparr>]) \<and>
   trim ''  '' = [] \<and>
   addMapping button 0 ''  '' [\<lparr>type = button, index = 0, fieldName = ''fire''\<rparr>] =
     [\<lparr>type = button, index = 0, fieldName = ''fire''\<rparr>] \<and>
   trim [CHR 0xA0] = [] \<and>
   addMapping button 0 [CHR 0xA0] [\<lparr>type = button, index = 0, fieldName = ''fire''\<rparr>] =
     [\<lparr>type = button, index = 0, fieldName = ''fire''\<rparr>]"
proof -
  have t: "trim ''jump'' = ''jump''" and b: "trim ''  '' = []" and n: "trim [CHR 0xA0] = []"
    by (simp_all add: trim_def isSpace_def)
  have u: "uniquePairs [\<lparr>type = button, index = 0, fieldName = ''fire''\<rparr>,
                \<lparr>type = axis, index = 0, fieldName = ''turn''\<rparr>]"
    by (simp add: uniquePairs_def)
  show ?thesis
    using addMapping_last_write_wins [of "''jump''" button 0
        "[\<lparr>type = button, index = 0, fieldName = ''fire''\<rparr>,
          \<lparr>type = axis, index = 0, fieldName = ''turn''\<rparr>]"]
      addMapping_last_write_wins [of "''  ''" button 0
        "[\<lparr>type = button, index = 0, fieldName = ''fire''\<rparr>]"]
      addMapping_last_write_wins [of "[CHR 0xA0]" button 0
        "[\<lparr>type = button, index = 0, fieldName = ''fire''\<rparr>]"]
    by (simp add: t b n u) (simp add: addMapping_def t samePair_def)
qed

text \<open>
  Claim C7: on every path that sets \<open>sendHz\<close> a value outside \<open>[1, 100]\<close> is clamped.
  The frequency input clamps (500 becomes 100), but \<open>handleLoadConfig\<close> and the
  load of a shared configuration from the URL store the configuration's number as it
  is: 500 stays 500.
\<close>

theorem loadConfig_sendHz_unclamped:
  "sendHz (step (LoadConfig fastConfig) initial) = 500 \<and>
   sendHz (mount (Some fastConfig)) = 500 \<and>
   sendHz (step (SetSendHz 500) (step (SetSendByInterval True) initial)) = 100"
  by (simp add: evaluation)

text \<open>
  Claim C8: while streaming no operation changes \<open>sendByInterval\<close> or \<open>sendHz\<close>. The
  checkbox and the frequency input are disabled while streaming, but loading a
  configuration is offered at any time and sets both: in a streaming session at 2 Hz in
  change-detection mode it stores 50 Hz and the interval mode, and the session keeps
  streaming.
\<close>

theorem loadConfig_while_streaming:
  "isStreaming (run startSession initial) \<and>
   sendHz (run startSession initial) = 2 \<and>
   \<not> sendByInterval (run startSession initial) \<and>
   step (SetSendHz 50) (run startSession initial) = run startSession initial \<and>
   step (SetSendByInterval True) (run startSession initial) = run startSession initial \<and>
   available (LoadConfig savedConfig) (run startSession initial) \<and>
   isStreaming (step (LoadConfig savedConfig) (run startSession initial)) \<and>
   sendHz (step (LoadConfig savedConfig) (run startSession initial)) = 50 \<and>
   sendByInterval (step (LoadConfig savedConfig) (run startSession initial))"
  by (simp add: startSession_state available_def) (simp add: evaluation)

text \<open>
  Claim C9, as stated: a mapping that is removed and added again during a session is
  treated as a first observation, so its first tick is published. The latch of the
  removed channel is still there when the mapping comes back: with the axis at the
  latched value, neither the tick run on re-adding nor the next snapshot publishes.
\<close>

theorem readded_mapping_counterexample:
  "length (published (run startSession initial)) = 1 \<and>
   mappings (run (startSession @ [RemoveMapping axis 0]) initial) =
     [\<lparr>type = button, index = 0, fieldName = ''fire''\<rparr>] \<and>
   isStreaming (run (startSession @ [RemoveMapping axis 0, AddMapping axis 0 ''turn'']) initial) \<and>
   mappings (run (startSession @ [RemoveMapping axis 0, AddMapping axis 0 ''turn'']) initial) =
     [\<lparr>type = button, index = 0, fieldName = ''fire''\<rparr>,
      \<lparr>type = axis, index = 0, fieldName = ''turn''\<rparr>] \<and>
   length (published (run (startSession @ [RemoveMapping axis 0, AddMapping axis 0 ''turn''])
     initial)) = 1 \<and>
   length (published (run (startSession @
     [RemoveMapping axis 0, AddMapping axis 0 ''turn'', Poll restingPad]) initial)) = 1"
  by (simp add: run_append startSession_state) (simp add: evaluation)

text \<open>
  Claim C9, amended: removing a mapping leaves the latch entry of its channel unchanged,
  and so do the snapshots that arrive while the channel is unmapped. When a mapping for the same kind and index is added again in the session, the channel
  is compared with that retained latch, exactly as before the removal; the tick run on
  re-adding publishes if and only if some mapped channel differs from its latch, and a
  re-added channel whose value equals the retained latch does not count as changed.
\<close>

theorem readded_mapping_meets_retained_latch:
  assumes "isStreaming s" and "natsConnection s = Some nc" and "gamepadState s = Some gs"
    and "\<not> sendByInterval s" and "trim name \<noteq> []"
  shows "(let removed = perform (RemoveMapping t i) s;
              readded = perform (AddMapping t i name) removed;
              m = \<lparr>type = t, index = i, fieldName = trim name\<rparr>
          in lastAxisValues (perform (RemoveMapping axis i) s) i = lastAxisValues s i \<and>
             lastSentState (perform (RemoveMapping button i) s) i = lastSentState s i \<and>
             lastAxisValues (perform (Poll g) (perform (RemoveMapping axis i) s)) i =
               lastAxisValues s i \<and>
             lastSentState (perform (Poll g) (perform (RemoveMapping button i) s)) i =
               lastSentState s i \<and>
             channelChanged (lastSentState removed) (lastAxisValues removed) gs m =
               channelChanged (lastSentState s) (lastAxisValues s) gs m \<and>
             mappings readded = removeMapping t i (mappings s) @ [m] \<and>
             published readded =
               (if list_ex (channelChanged (lastSentState removed) (lastAxisValues removed) gs)
                     (mappings readded)
                then published removed @ [buildPayload gs (mappings readded)]
                else published removed))"
proof -
  let ?removed = "perform (RemoveMapping t i) s"
  let ?m = "\<lparr>type = t, index = i, fieldName = trim name\<rparr>"
  let ?ms = "removeMapping t i (mappings s) @ [?m]"
  let ?s2 = "?removed\<lparr>mappings := ?ms\<rparr>"
  have ax: "lastAxisValues (perform (RemoveMapping axis i) s) i = lastAxisValues s i"
    using rerun_axis_latch [of i "s\<lparr>mappings := removeMapping axis i (mappings s)\<rparr>"]
    by (simp add: perform_def removeMapping_none)
  have bt: "lastSentState (perform (RemoveMapping button i) s) i = lastSentState s i"
    using rerun_button_latch [of i "s\<lparr>mappings := removeMapping button i (mappings s)\<rparr>"]
    by (simp add: perform_def removeMapping_none)
  have axp: "lastAxisValues (perform (Poll g) (perform (RemoveMapping axis i) s)) i =
      lastAxisValues s i"
    using rerun_axis_latch [of i "(perform (RemoveMapping axis i) s)\<lparr>gamepadState := Some g\<rparr>"] ax
    by (simp add: perform_def [of "Poll g"] perform_RemoveMapping_fields removeMapping_none)
  have btp: "lastSentState (perform (Poll g) (perform (RemoveMapping button i) s)) i =
      lastSentState s i"
    using rerun_button_latch [of i "(perform (RemoveMapping button i) s)\<lparr>gamepadState := Some g\<rparr>"] bt
    by (simp add: perform_def [of "Poll g"] perform_RemoveMapping_fields removeMapping_none)
  have same: "channelChanged (lastSentState ?removed) (lastAxisValues ?removed) gs ?m =
      channelChanged (lastSentState s) (lastAxisValues s) gs ?m"
    using ax bt by (cases t) (simp_all add: channelChanged_def)
  have idem: "removeMapping t i (removeMapping t i (mappings s)) = removeMapping t i (mappings s)"
    by (simp add: removeMapping_def)
  have readd: "perform (AddMapping t i name) ?removed = rerun ?s2"
    using assms(5)
    by (simp add: perform_def [of "AddMapping t i name"] addMapping_def
        perform_RemoveMapping_fields removeMapping_def [symmetric] idem)
  have pub: "published (rerun ?s2) =
      (if list_ex (channelChanged (lastSentState ?s2) (lastAxisValues ?s2) gs) (mappings ?s2)
       then published ?s2 @ [buildPayload gs (mappings ?s2)] else published ?s2)"
    using assms by (intro rerun_changeDetect [of ?s2 nc gs]) (simp_all add: perform_RemoveMapping_fields)
  have ms: "mappings (rerun ?s2) = ?ms"
    by (simp add: rerun_fields)
  show ?thesis
    unfolding Let_def readd using ax bt axp btp same pub ms by simp
qed

theorem readded_mapping_meets_retained_latch_witness:
  "trim ''turn'' \<noteq> [] \<and>
   lastAxisValues (perform (RemoveMapping axis 0) (run startSession initial)) 0 = Some 0.123 \<and>
   published (perform (AddMapping axis 0 ''turn'')
      (perform (RemoveMapping axis 0) (run startSession initial))) =
     published (run startSession initial)"
proof -
  let ?s = "run startSession initial"
  have h1: "isStreaming ?s" and h2: "natsConnection ?s = Some acceptingConnection"
    and h3: "gamepadState ?s = Some restingPad" and h4: "\<not> sendByInterval ?s"
    and h5: "trim ''turn'' \<noteq> []"
    by (simp_all add: startSession_state trim_turn)
  have removed: "perform (RemoveMapping axis 0) ?s =
      ?s\<lparr>mappings := [\<lparr>type = button, index = 0, fieldName = ''fire''\<rparr>]\<rparr>"
    by (simp add: startSession_state perform_def removeMapping_def samePair_def)
      (simp add: evaluation)
  show ?thesis
    using readded_mapping_meets_retained_latch [OF h1 h2 h3 h4 h5, of axis 0]
    by (simp add: Let_def removed trim_turn removeMapping_def samePair_def)
      (simp add: startSession_state channelChanged_def elemAt_def rawValue_def
        currentValue_def deadZone_def restingPad_def)
qed

text \<open>
  Claim C10. For every publish attempt, in either mode, if the transport's publish call
  throws, the last-message observable keeps its previous value; it becomes the payload
  just built only when the call returns. This holds of \<open>sendPayload\<close>, of the passing
  of time in an interval session, where every firing of the timer is one call of it (on
  a throwing connection the attempts are made and the last message stays; on a
  returning one it is the payload from the first firing on), and of a snapshot tick in a
  change-detection session.
\<close>

theorem sendPayload_lastMessage:
  "(nc subj p = Threw \<longrightarrow> lastMessage (sendPayload nc subj p s) = lastMessage s) \<and>
   (nc subj p = Returned \<longrightarrow> lastMessage (sendPayload nc subj p s) = Some p) \<and>
   fire iv s =
     sendPayload (ivConnection iv) (ivSubject iv) (buildPayload (ivState iv) (ivMappings iv)) s \<and>
   (intervalId s = Some iv \<and> 0 \<le> d \<and>
    ivConnection iv (ivSubject iv) (buildPayload (ivState iv) (ivMappings iv)) = Threw \<longrightarrow>
      lastMessage (step (Elapse d) s) = lastMessage s \<and>
      length (published (step (Elapse d) s)) = length (published s) + fires d iv) \<and>
   (intervalId s = Some iv \<and> 0 \<le> d \<and>
    ivConnection iv (ivSubject iv) (buildPayload (ivState iv) (ivMappings iv)) = Returned \<longrightarrow>
      lastMessage (step (Elapse d) s) =
        (if d < dueIn iv then lastMessage s
         else Some (buildPayload (ivState iv) (ivMappings iv)))) \<and>
   (isStreaming s \<and> natsConnection s = Some nc \<and> mappings s \<noteq> [] \<and> \<not> sendByInterval s \<and>
    nc (subject s) (buildPayload gs' (mappings s)) = Threw \<longrightarrow>
      lastMessage (perform (Poll gs') s) = lastMessage s) \<and>
   (isStreaming s \<and> natsConnection s = Some nc \<and> mappings s \<noteq> [] \<and> \<not> sendByInterval s \<and>
    nc (subject s) (buildPayload gs' (mappings s)) = Returned \<longrightarrow>
      lastMessage (perform (Poll gs') s) =
        (if list_ex (channelChanged (lastSentState s) (lastAxisValues s) gs') (mappings s)
         then Some (buildPayload gs' (mappings s)) else lastMessage s)) \<and>
   (isStreaming s \<and> natsConnection s = Some nc \<and> gamepadState s = Some gs \<and>
    mappings s \<noteq> [] \<and> \<not> sendByInterval s \<longrightarrow>
      lastMessage (rerun s) =
        (if list_ex (channelChanged (lastSentState s) (lastAxisValues s) gs) (mappings s)
         then lastMessage (sendPayload nc (subject s) (buildPayload gs (mappings s)) s)
         else lastMessage s))"
proof -
  have a: "(nc subj p = Threw \<longrightarrow> lastMessage (sendPayload nc subj p s) = lastMessage s) \<and>
      (nc subj p = Returned \<longrightarrow> lastMessage (sendPayload nc subj p s) = Some p) \<and>
      fire iv s =
        sendPayload (ivConnection iv) (ivSubject iv) (buildPayload (ivState iv) (ivMappings iv)) s"
    by (simp add: sendPayload_def fire_def)
  have b: "isStreaming s \<and> natsConnection s = Some nc \<and> gamepadState s = Some gs \<and>
      mappings s \<noteq> [] \<and> \<not> sendByInterval s \<longrightarrow>
      lastMessage (rerun s) =
        (if list_ex (channelChanged (lastSentState s) (lastAxisValues s) gs) (mappings s)
         then lastMessage (sendPayload nc (subject s) (buildPayload gs (mappings s)) s)
         else lastMessage s)"
    by (simp add: sendPayload_def rerun_def cleanup_def streamingEffect_def Let_def
        detect_fold_hasChange detect_fold_built buildPayload_def split: outcome.split)
  from a b show ?thesis
    by (simp add: elapse_lastMessage_threw elapse_lastMessage_returned elapse_published
        poll_lastMessage)
qed

theorem sendPayload_lastMessage_witness:
  "failingConnection ''joystick.data'' [''fire'' \<mapsto> 1] = Threw \<and>
   lastMessage (sendPayload failingConnection ''joystick.data'' [''fire'' \<mapsto> 1] initial) =
     lastMessage initial \<and>
   acceptingConnection ''joystick.data'' [''fire'' \<mapsto> 1] = Returned \<and>
   lastMessage (sendPayload acceptingConnection ''joystick.data'' [''fire'' \<mapsto> 1] initial) =
     Some [''fire'' \<mapsto> 1] \<and>
   lastMessage (run startFailingIntervalSession initial) = None \<and>
   lastMessage (step (Elapse 1000) (run startFailingIntervalSession initial)) = None \<and>
   length (published (step (Elapse 1000) (run startFailingIntervalSession initial))) = 10 \<and>
   lastMessage (step (Elapse 50) (run startIntervalSession initial)) = None \<and>
   lastMessage (step (Elapse 1000) (run startIntervalSession initial)) =
     Some [''turn'' \<mapsto> 0.12] \<and>
   lastMessage (perform (Poll movedPad)
     ((run startSession initial)\<lparr>natsConnection := Some failingConnection\<rparr>)) =
     lastMessage (run startSession initial) \<and>
   lastMessage (perform (Poll movedPad) (run startSession initial)) =
     Some [''fire'' \<mapsto> 0, ''turn'' \<mapsto> 0.12] \<and>
   lastMessage (rerun ((run startSession initial)
     \<lparr>natsConnection := Some failingConnection, gamepadState := Some movedPad\<rparr>)) =
     lastMessage (run startSession initial) \<and>
   lastMessage (rerun ((run startSession initial)\<lparr>gamepadState := Some movedPad\<rparr>)) =
     Some [''fire'' \<mapsto> 0, ''turn'' \<mapsto> 0.12]"
proof -
  let ?turn = "[\<lparr>type = axis, index = 0, fieldName = ''turn''\<rparr>]"
  let ?ivF = "\<lparr>delay = 100, dueIn = 100, ivState = restingPad, ivMappings = ?turn,
    ivSubject = ''joystick.data'', ivConnection = failingConnection\<rparr>"
  let ?ivA = "\<lparr>delay = 100, dueIn = 100, ivState = restingPad, ivMappings = ?turn,
    ivSubject = ''joystick.data'', ivConnection = acceptingConnection\<rparr>"
  have payload: "buildPayload restingPad ?turn = [''turn'' \<mapsto> 0.12]"
    by (simp add: buildPayload_def setField_def fieldValue_def toFixed2_def elemAt_def
        rawValue_def currentValue_def deadZone_def restingPad_def)
  have plain:
    "failingConnection ''joystick.data'' [''fire'' \<mapsto> 1] = Threw \<and>
     lastMessage (sendPayload failingConnection ''joystick.data'' [''fire'' \<mapsto> 1] initial) =
       lastMessage initial \<and>
     acceptingConnection ''joystick.data'' [''fire'' \<mapsto> 1] = Returned \<and>
     lastMessage (sendPayload acceptingConnection ''joystick.data'' [''fire'' \<mapsto> 1] initial) =
       Some [''fire'' \<mapsto> 1]"
    using
      sendPayload_lastMessage [where nc = failingConnection and subj = "''joystick.data''"
        and p = "[''fire'' \<mapsto> 1]" and s = initial]
      sendPayload_lastMessage [where nc = acceptingConnection and subj = "''joystick.data''"
        and p = "[''fire'' \<mapsto> 1]" and s = initial]
    by (simp add: failingConnection_def acceptingConnection_def)
  have failing:
    "lastMessage (run startFailingIntervalSession initial) = None \<and>
     lastMessage (step (Elapse 1000) (run startFailingIntervalSession initial)) = None \<and>
     length (published (step (Elapse 1000) (run startFailingIntervalSession initial))) = 10"
    using sendPayload_lastMessage [where s = "run startFailingIntervalSession initial"
        and iv = ?ivF and d = 1000]
    by (simp add: startFailingIntervalSession_state failingConnection_def fires_def)
  have accepting:
    "lastMessage (step (Elapse 50) (run startIntervalSession initial)) = None \<and>
     lastMessage (step (Elapse 1000) (run startIntervalSession initial)) =
       Some [''turn'' \<mapsto> 0.12]"
    using sendPayload_lastMessage [where s = "run startIntervalSession initial"
        and iv = ?ivA and d = 50]
      sendPayload_lastMessage [where s = "run startIntervalSession initial"
        and iv = ?ivA and d = 1000]
    by (simp add: startIntervalSession_state acceptingConnection_def payload)
  have polls:
    "lastMessage (perform (Poll movedPad)
       ((run startSession initial)\<lparr>natsConnection := Some failingConnection\<rparr>)) =
       lastMessage (run startSession initial) \<and>
     lastMessage (perform (Poll movedPad) (run startSession initial)) =
       Some [''fire'' \<mapsto> 0, ''turn'' \<mapsto> 0.12]"
    using
      sendPayload_lastMessage [where nc = failingConnection and gs' = movedPad
        and s = "(run startSession initial)\<lparr>natsConnection := Some failingConnection\<rparr>"]
      sendPayload_lastMessage [where nc = acceptingConnection and gs' = movedPad
        and s = "run startSession initial"]
    by (simp add: startSession_state failingConnection_def acceptingConnection_def
        channelChanged_def buildPayload_def setField_def fieldValue_def toFixed2_def
        elemAt_def rawValue_def currentValue_def deadZone_def movedPad_def)
  have ticks:
    "lastMessage (rerun ((run startSession initial)
       \<lparr>natsConnection := Some failingConnection, gamepadState := Some movedPad\<rparr>)) =
       lastMessage (run startSession initial) \<and>
     lastMessage (rerun ((run startSession initial)\<lparr>gamepadState := Some movedPad\<rparr>)) =
       Some [''fire'' \<mapsto> 0, ''turn'' \<mapsto> 0.12]"
    using
      sendPayload_lastMessage [where nc = failingConnection and gs = movedPad
        and s = "(run startSession initial)
          \<lparr>natsConnection := Some failingConnection, gamepadState := Some movedPad\<rparr>"]
      sendPayload_lastMessage [where nc = acceptingConnection and gs = movedPad
        and s = "(run startSession initial)\<lparr>gamepadState := Some movedPad\<rparr>"]
    by (simp add: startSession_state failingConnection_def acceptingConnection_def
        sendPayload_def channelChanged_def buildPayload_def setField_def fieldValue_def
        toFixed2_def elemAt_def rawValue_def currentValue_def deadZone_def movedPad_def)
  from plain failing accepting polls ticks show ?thesis
    by simp
qed

end
